theory Spec2Isabelle
  imports Complex_Main
begin

section \<open>JavaScript numbers\<close>

text \<open>
  Every number of the data service is an IEEE 754 binary64 value. A finite double is kept
  as a pair of integers: \<open>Dbl m e\<close> stands for \<open>m * 2 ^ e\<close>. Each arithmetic operator
  computes the exact result and rounds it to the nearest double, ties to even, as the
  language prescribes. \<open>Undefined\<close> is what reading a property that an object does not
  have yields; arithmetic turns it into \<open>NaN\<close>. The sign of zero is not kept.
\<close>

datatype jsval = Dbl int int | Infty bool | NaN | Undefined

text \<open>The number of binary digits of a positive integer.\<close>

function bits :: "int \<Rightarrow> int" where
  "bits n = (if n \<le> 0 then 0 else 1 + bits (n div 2))"
  by pat_completeness auto
termination
  by (relation "measure nat") auto

definition nearest_even :: "int \<Rightarrow> int \<Rightarrow> int" where
  "nearest_even p q =
     (let m = p div q; r = p mod q
      in if 2 * r < q then m
         else if q < 2 * r then m + 1
         else if even m then m else m + 1)"

definition ge_pow2 :: "int \<Rightarrow> int \<Rightarrow> int \<Rightarrow> bool" where
  "ge_pow2 a q b = (if 0 \<le> b then q * 2 ^ nat b \<le> a else q \<le> a * 2 ^ nat (- b))"

text \<open>
  \<open>fl p q\<close> is the double nearest to the fraction \<open>p / q\<close> (for \<open>0 < q\<close>): 53 significant
  bits, the exponent of the last place never below \<open>-1074\<close> (subnormals), overflow to
  infinity from \<open>2 ^ 1024\<close> on.
\<close>

definition fl :: "int \<Rightarrow> int \<Rightarrow> jsval" where
  "fl p q =
     (if p = 0 then Dbl 0 0
      else
        let a = \<bar>p\<bar>;
            b = bits a - bits q;
            ex = (if ge_pow2 a q b then b else b - 1);
            e = max (ex - 52) (- 1074);
            m = (if 0 \<le> e then nearest_even p (q * 2 ^ nat e)
                 else nearest_even (p * 2 ^ nat (- e)) q)
        in if 971 < e \<or> (e = 971 \<and> \<bar>m\<bar> = 2 ^ 53) then Infty (p < 0) else Dbl m e)"

definition fl_scaled :: "int \<Rightarrow> int \<Rightarrow> int \<Rightarrow> jsval" where
  "fl_scaled p q e = (if 0 \<le> e then fl (p * 2 ^ nat e) q else fl p (q * 2 ^ nat (- e)))"

text \<open>A decimal literal of the source: \<open>dec 61888645023 2\<close> is \<open>618886450.23\<close>.\<close>

definition dec :: "int \<Rightarrow> nat \<Rightarrow> jsval" where
  "dec p k = fl p (10 ^ k)"

definition to_number :: "jsval \<Rightarrow> jsval" where
  "to_number x = (case x of Undefined \<Rightarrow> NaN | _ \<Rightarrow> x)"

fun num_add :: "jsval \<Rightarrow> jsval \<Rightarrow> jsval" where
  "num_add (Dbl m1 e1) (Dbl m2 e2) =
     (let e = min e1 e2
      in fl_scaled (m1 * 2 ^ nat (e1 - e) + m2 * 2 ^ nat (e2 - e)) 1 e)"
| "num_add (Infty s) (Infty t) = (if s = t then Infty s else NaN)"
| "num_add (Infty s) (Dbl m e) = Infty s"
| "num_add (Dbl m e) (Infty s) = Infty s"
| "num_add x y = NaN"

fun num_mul :: "jsval \<Rightarrow> jsval \<Rightarrow> jsval" where
  "num_mul (Dbl m1 e1) (Dbl m2 e2) = fl_scaled (m1 * m2) 1 (e1 + e2)"
| "num_mul (Infty s) (Infty t) = Infty (s \<noteq> t)"
| "num_mul (Infty s) (Dbl m e) = (if m = 0 then NaN else Infty (s \<noteq> (m < 0)))"
| "num_mul (Dbl m e) (Infty s) = (if m = 0 then NaN else Infty (s \<noteq> (m < 0)))"
| "num_mul x y = NaN"

fun num_div :: "jsval \<Rightarrow> jsval \<Rightarrow> jsval" where
  "num_div (Dbl m1 e1) (Dbl m2 e2) =
     (if m2 = 0 then (if m1 = 0 then NaN else Infty (m1 < 0))
      else fl_scaled (sgn m2 * m1) \<bar>m2\<bar> (e1 - e2))"
| "num_div (Infty s) (Dbl m e) = Infty (s \<noteq> (m < 0))"
| "num_div (Dbl m e) (Infty s) = Dbl 0 0"
| "num_div x y = NaN"

text \<open>The operators \<open>+\<close>, \<open>*\<close> and \<open>/\<close> on values: operands are converted to numbers first.\<close>

definition js_add :: "jsval \<Rightarrow> jsval \<Rightarrow> jsval" where
  "js_add x y = num_add (to_number x) (to_number y)"

definition js_mul :: "jsval \<Rightarrow> jsval \<Rightarrow> jsval" where
  "js_mul x y = num_mul (to_number x) (to_number y)"

definition js_div :: "jsval \<Rightarrow> jsval \<Rightarrow> jsval" where
  "js_div x y = num_div (to_number x) (to_number y)"

text \<open>\<open>Math.round\<close>: the nearest integer, a tie going towards plus infinity.\<close>

definition Math_round :: "jsval \<Rightarrow> jsval" where
  "Math_round x =
     (case to_number x of
        Dbl m e \<Rightarrow>
          (if 0 \<le> e then Dbl m e
           else Dbl ((2 * m + 2 ^ nat (- e)) div 2 ^ nat (1 - e)) 0)
      | y \<Rightarrow> y)"

text \<open>The rational number a finite double stands for, to state bounds on results.\<close>

definition is_finite :: "jsval \<Rightarrow> bool" where
  "is_finite x = (case x of Dbl m e \<Rightarrow> True | _ \<Rightarrow> False)"

definition val :: "jsval \<Rightarrow> rat" where
  "val x =
     (case x of
        Dbl m e \<Rightarrow> (if 0 \<le> e then of_int (m * 2 ^ nat e) else of_int m / of_int (2 ^ nat (- e)))
      | _ \<Rightarrow> 0)"

section \<open>Property lookup on an object literal\<close>

text \<open>
  \<open>obj[key]\<close> on an object literal finds the literal's own property, or else a member
  that the literal inherits from \<open>Object.prototype\<close>, or else nothing (\<open>undefined\<close>).
  The inherited members are functions, and \<open>__proto__\<close> is an object: all of them are
  truthy, and none of them has any of the properties the service reads.
\<close>

datatype 'a lookup = Own 'a | Inherited string | Missing

definition object_prototype_keys :: "string list" where
  "object_prototype_keys =
     [''constructor'', ''hasOwnProperty'', ''isPrototypeOf'', ''propertyIsEnumerable'',
      ''toLocaleString'', ''toString'', ''valueOf'', ''__proto__'',
      ''__defineGetter__'', ''__defineSetter__'', ''__lookupGetter__'', ''__lookupSetter__'']"

definition js_get :: "(string \<times> 'a) list \<Rightarrow> string \<Rightarrow> 'a lookup" where
  "js_get obj key =
     (case map_of obj key of
        Some x \<Rightarrow> Own x
      | None \<Rightarrow> if key \<in> set object_prototype_keys then Inherited key else Missing)"

section \<open>lpStaticDataService\<close>

record vehicle =
  vehicle_id :: string
  vehicle_name :: string

definition getInvestmentVehicles :: "vehicle list" where
  "getInvestmentVehicles =
     [\<lparr>vehicle_id = ''all'', vehicle_name = ''All Investment Vehicles''\<rparr>,
      \<lparr>vehicle_id = ''iv1'', vehicle_name = ''Investment Vehicle 1''\<rparr>,
      \<lparr>vehicle_id = ''iv2'', vehicle_name = ''Investment Vehicle 2''\<rparr>]"

record metrics =
  totalCommitments :: jsval
  totalCalled :: jsval
  totalDistributions :: jsval
  estimatedValue :: jsval
  estimatedTVPI :: jsval

definition fullMetrics :: metrics where
  "fullMetrics =
     \<lparr>totalCommitments = dec 61888645023 2, totalCalled = dec 13057558529 2,
      totalDistributions = dec 1275690014 2, estimatedValue = dec 16033594214 2,
      estimatedTVPI = dec 133 2\<rparr>"

definition fundMetrics :: "(string \<times> metrics) list" where
  "fundMetrics =
     [(''pbventures'',
       \<lparr>totalCommitments = dec 19462845810 2, totalCalled = dec 4106594108 2,
        totalDistributions = dec 401269504 2, estimatedValue = dec 5042562479 2,
        estimatedTVPI = dec 145 2\<rparr>),
      (''norton'',
       \<lparr>totalCommitments = dec 13799771840 2, totalCalled = dec 2911839652 2,
        totalDistributions = dec 284478843 2, estimatedValue = dec 3575489527 2,
        estimatedTVPI = dec 138 2\<rparr>),
      (''wanye'',
       \<lparr>totalCommitments = dec 11603820942 2, totalCalled = dec 2448292224 2,
        totalDistributions = dec 239191878 2, estimatedValue = dec 3006298928 2,
        estimatedTVPI = dec 128 2\<rparr>),
      (''violet'',
       \<lparr>totalCommitments = dec 8787887583 2, totalCalled = dec 1854173312 2,
        totalDistributions = dec 181147982 2, estimatedValue = dec 2276770384 2,
        estimatedTVPI = dec 125 2\<rparr>),
      (''123'',
       \<lparr>totalCommitments = dec 5012980247 2, totalCalled = dec 1057662239 2,
        totalDistributions = dec 103330911 2, estimatedValue = dec 1298722532 2,
        estimatedTVPI = dec 118 2\<rparr>),
      (''mjk'',
       \<lparr>totalCommitments = dec 3221338501 2, totalCalled = dec 678997094 2,
        totalDistributions = dec 66270996 2, estimatedValue = dec 833750364 2,
        estimatedTVPI = dec 142 2\<rparr>)]"

definition vehicleMetrics :: "(string \<times> metrics) list" where
  "vehicleMetrics =
     [(''iv1'',
       \<lparr>totalCommitments = dec 36483956151 2, totalCalled = dec 7702230854 2,
        totalDistributions = dec 752019343 2, estimatedValue = dec 9451802370 2,
        estimatedTVPI = dec 141 2\<rparr>),
      (''iv2'',
       \<lparr>totalCommitments = dec 25404688772 2, totalCalled = dec 5355327775 2,
        totalDistributions = dec 523670771 2, estimatedValue = dec 6581791844 2,
        estimatedTVPI = dec 126 2\<rparr>)]"

text \<open>
  What an expression \<open>obj[key] || dflt\<close> evaluates to: an object of the table, the
  default when the key is missing, or a member inherited from \<open>Object.prototype\<close>.
  Reading a property of such a member yields \<open>undefined\<close>.
\<close>

datatype 'a objref = Obj 'a | ProtoMember string

definition or_else :: "'a lookup \<Rightarrow> 'a \<Rightarrow> 'a objref" where
  "or_else r dflt =
     (case r of Own x \<Rightarrow> Obj x | Inherited k \<Rightarrow> ProtoMember k | Missing \<Rightarrow> Obj dflt)"

definition get_prop :: "('a \<Rightarrow> jsval) \<Rightarrow> 'a objref \<Rightarrow> jsval" where
  "get_prop sel r = (case r of Obj x \<Rightarrow> sel x | ProtoMember k \<Rightarrow> Undefined)"

definition getPortfolioMetrics :: "string \<Rightarrow> string \<Rightarrow> metrics objref" where
  "getPortfolioMetrics vId fId =
     (if fId \<noteq> ''all'' then or_else (js_get fundMetrics fId) fullMetrics
      else if vId \<noteq> ''all'' then or_else (js_get vehicleMetrics vId) fullMetrics
      else Obj fullMetrics)"

record fund_base =
  fund_id :: string
  fund_name :: string
  vehicleId :: string
  color :: string

record fund = fund_base +
  allocation :: jsval

definition fundBaseData :: "fund_base list" where
  "fundBaseData =
     [\<lparr>fund_id = ''pbventures'', fund_name = ''PB Ventures Fund'', vehicleId = ''iv1'',
       color = ''#1976D2''\<rparr>,
      \<lparr>fund_id = ''norton'', fund_name = ''Norton Ventures'', vehicleId = ''iv1'',
       color = ''#388E3C''\<rparr>,
      \<lparr>fund_id = ''wanye'', fund_name = ''Wanye'', vehicleId = ''iv2'', color = ''#F57C00''\<rparr>,
      \<lparr>fund_id = ''violet'', fund_name = ''Violet'', vehicleId = ''iv2'', color = ''#7B1FA2''\<rparr>,
      \<lparr>fund_id = ''123'', fund_name = ''123'', vehicleId = ''iv2'', color = ''#C2185B''\<rparr>,
      \<lparr>fund_id = ''mjk'', fund_name = ''MJK'', vehicleId = ''iv1'', color = ''#0097A7''\<rparr>]"

text \<open>The body of the \<open>map\<close> callback of \<open>getFunds\<close>: the allocation of one fund.\<close>

definition fund_allocation :: "string \<Rightarrow> jsval" where
  "fund_allocation fId =
     (let totalPortfolioCommitments = get_prop totalCommitments (getPortfolioMetrics ''all'' ''all'');
          fundMetrics = getPortfolioMetrics ''all'' fId;
          allocation = js_mul (js_div (get_prop totalCommitments fundMetrics) totalPortfolioCommitments)
                         (dec 100 0)
      in js_div (Math_round (js_mul allocation (dec 100 0))) (dec 100 0))"

definition getFunds :: "fund list" where
  "getFunds =
     map (\<lambda>b. \<lparr>fund_id = fund_id b, fund_name = fund_name b, vehicleId = vehicleId b,
               color = color b, allocation = fund_allocation (fund_id b)\<rparr>) fundBaseData"

record alloc_entry =
  fundId :: string
  fundName :: string
  allocation' :: jsval
  value' :: jsval
  color' :: string

definition getFundAllocation :: "string \<Rightarrow> string \<Rightarrow> alloc_entry list" where
  "getFundAllocation vId fId =
     (let funds = getFunds;
          filteredFunds = (if vId \<noteq> ''all'' then filter (\<lambda>f. vehicleId f = vId) funds else funds)
      in case (if fId \<noteq> ''all'' then find (\<lambda>f. fund_id f = fId) funds else None) of
           Some selectedFund \<Rightarrow>
             (let metrics = getPortfolioMetrics vId fId
              in [\<lparr>fundId = fund_id selectedFund, fundName = fund_name selectedFund,
                   allocation' = dec 100 0, value' = get_prop totalCommitments metrics,
                   color' = color selectedFund\<rparr>])
         | None \<Rightarrow>
             (let total = foldl (\<lambda>sum f. js_add sum (allocation f)) (dec 0 0) filteredFunds
              in map (\<lambda>fund.
                        let fundMetrics = getPortfolioMetrics ''all'' (fund_id fund)
                        in \<lparr>fundId = fund_id fund, fundName = fund_name fund,
                            allocation' = (if vId = ''all'' then allocation fund
                                           else js_mul (js_div (allocation fund) total) (dec 100 0)),
                            value' = get_prop totalCommitments fundMetrics,
                            color' = color fund\<rparr>) filteredFunds))"

subsection \<open>Dates\<close>

text \<open>
  The clock of the browser: the year and the month (\<open>0\<close> is January) that
  \<open>getFullYear()\<close> and \<open>getMonth()\<close> return for \<open>new Date()\<close>, and the offset of the
  local time zone from UTC in minutes, positive east of Greenwich.
\<close>

record clock =
  fullYear :: int
  month :: int
  tz_offset :: int

definition msPerDay :: int where
  "msPerDay = 86400000"

definition DayFromYear :: "int \<Rightarrow> int" where
  "DayFromYear y =
     365 * (y - 1970) + (y - 1969) div 4 - (y - 1901) div 100 + (y - 1601) div 400"

definition InLeapYear :: "int \<Rightarrow> bool" where
  "InLeapYear y = (y mod 4 = 0 \<and> (y mod 100 \<noteq> 0 \<or> y mod 400 = 0))"

text \<open>The day of the year on which a month (\<open>0\<close> to \<open>11\<close>) begins.\<close>

definition month_start :: "bool \<Rightarrow> int \<Rightarrow> int" where
  "month_start leap mn =
     [0, 31, 59, 90, 120, 151, 181, 212, 243, 273, 304, 334] ! nat mn
       + (if leap \<and> 2 \<le> mn then 1 else 0)"

definition MakeDay :: "int \<Rightarrow> int \<Rightarrow> int \<Rightarrow> int" where
  "MakeDay yr mo dt =
     (let ym = yr + mo div 12; mn = mo mod 12
      in DayFromYear ym + month_start (InLeapYear ym) mn + dt - 1)"

text \<open>
  \<open>new Date(year, month, 1)\<close>: midnight of that day in local time, as a time value
  (milliseconds since the epoch, UTC). A month outside \<open>0 .. 11\<close> carries into the year;
  a year from \<open>0\<close> to \<open>99\<close> means \<open>1900 + year\<close>.
\<close>

definition new_Date :: "clock \<Rightarrow> int \<Rightarrow> int \<Rightarrow> int \<Rightarrow> int" where
  "new_Date c yr mo dt =
     (let y = (if 0 \<le> yr \<and> yr \<le> 99 then 1900 + yr else yr)
      in MakeDay y mo dt * msPerDay - tz_offset c * 60000)"

text \<open>The calendar date (year, month \<open>1 .. 12\<close>, day) of a day number, in UTC.\<close>

definition civil_from_days :: "int \<Rightarrow> int \<times> int \<times> int" where
  "civil_from_days days =
     (let z = days + 719468;
          era = z div 146097;
          doe = z mod 146097;
          yoe = (doe - doe div 1460 + doe div 36524 - doe div 146096) div 365;
          doy = doe - (365 * yoe + yoe div 4 - yoe div 100);
          mp = (5 * doy + 2) div 153;
          d = doy - (153 * mp + 2) div 5 + 1;
          m = (if mp < 10 then mp + 3 else mp - 9);
          y = yoe + era * 400 + (if m \<le> 2 then 1 else 0)
      in (y, m, d))"

fun digits :: "nat \<Rightarrow> int \<Rightarrow> string" where
  "digits 0 n = []"
| "digits (Suc k) n = digits k (n div 10) @ [''0123456789'' ! nat (n mod 10)]"

text \<open>
  The date part of \<open>toISOString()\<close>: \<open>YYYY-MM-DD\<close> in UTC, the year with a sign and six
  digits when it is not between \<open>0\<close> and \<open>9999\<close>.
\<close>

definition toISOString_date :: "int \<Rightarrow> string" where
  "toISOString_date t =
     (case civil_from_days (t div msPerDay) of
        (y, m, d) \<Rightarrow>
          (if 0 \<le> y \<and> y \<le> 9999 then digits 4 y
           else (if y < 0 then ''-'' else ''+'') @ digits 6 \<bar>y\<bar>)
          @ ''-'' @ digits 2 m @ ''-'' @ digits 2 d)"

text \<open>The loop that fills \<open>months\<close>, from \<open>i = 11\<close> down to \<open>i = 0\<close>.\<close>

definition month_string :: "clock \<Rightarrow> nat \<Rightarrow> string" where
  "month_string c i = take 7 (toISOString_date (new_Date c (fullYear c) (month c - int i) 1))"

fun months_from :: "clock \<Rightarrow> nat \<Rightarrow> string list" where
  "months_from c 0 = [month_string c 0]"
| "months_from c (Suc i) = month_string c (Suc i) # months_from c i"

subsection \<open>Performance series\<close>

record perf_point =
  date :: string
  totalValue :: jsval
  capitalCalled :: jsval
  tvpi :: jsval

record multipliers =
  valueMultiplier :: jsval
  calledMultiplier :: jsval
  tvpiOffset :: jsval

definition fullPerformance :: "string list \<Rightarrow> perf_point list" where
  "fullPerformance months =
     [\<lparr>date = months ! 0, totalValue = dec 145000000 0, capitalCalled = dec 118000000 0,
       tvpi = dec 123 2\<rparr>,
      \<lparr>date = months ! 1, totalValue = dec 147500000 0, capitalCalled = dec 120000000 0,
       tvpi = dec 124 2\<rparr>,
      \<lparr>date = months ! 2, totalValue = dec 150200000 0, capitalCalled = dec 122500000 0,
       tvpi = dec 126 2\<rparr>,
      \<lparr>date = months ! 3, totalValue = dec 152800000 0, capitalCalled = dec 124000000 0,
       tvpi = dec 127 2\<rparr>,
      \<lparr>date = months ! 4, totalValue = dec 154500000 0, capitalCalled = dec 125800000 0,
       tvpi = dec 128 2\<rparr>,
      \<lparr>date = months ! 5, totalValue = dec 156200000 0, capitalCalled = dec 127200000 0,
       tvpi = dec 129 2\<rparr>,
      \<lparr>date = months ! 6, totalValue = dec 157800000 0, capitalCalled = dec 128500000 0,
       tvpi = dec 130 2\<rparr>,
      \<lparr>date = months ! 7, totalValue = dec 158900000 0, capitalCalled = dec 129400000 0,
       tvpi = dec 131 2\<rparr>,
      \<lparr>date = months ! 8, totalValue = dec 159800000 0, capitalCalled = dec 130100000 0,
       tvpi = dec 132 2\<rparr>,
      \<lparr>date = months ! 9, totalValue = dec 160100000 0, capitalCalled = dec 130400000 0,
       tvpi = dec 132 2\<rparr>,
      \<lparr>date = months ! 10, totalValue = dec 160200000 0, capitalCalled = dec 130500000 0,
       tvpi = dec 133 2\<rparr>,
      \<lparr>date = months ! 11, totalValue = dec 16033594214 2, capitalCalled = dec 13057558529 2,
       tvpi = dec 133 2\<rparr>]"

definition fundMultipliers :: "(string \<times> multipliers) list" where
  "fundMultipliers =
     [(''pbventures'',
       \<lparr>valueMultiplier = dec 109 2, calledMultiplier = dec 95 2, tvpiOffset = dec 12 2\<rparr>),
      (''norton'',
       \<lparr>valueMultiplier = dec 104 2, calledMultiplier = dec 92 2, tvpiOffset = dec 5 2\<rparr>),
      (''wanye'',
       \<lparr>valueMultiplier = dec 96 2, calledMultiplier = dec 102 2, tvpiOffset = dec (- 5) 2\<rparr>),
      (''violet'',
       \<lparr>valueMultiplier = dec 94 2, calledMultiplier = dec 105 2, tvpiOffset = dec (- 8) 2\<rparr>),
      (''123'',
       \<lparr>valueMultiplier = dec 89 2, calledMultiplier = dec 108 2, tvpiOffset = dec (- 15) 2\<rparr>),
      (''mjk'',
       \<lparr>valueMultiplier = dec 107 2, calledMultiplier = dec 98 2, tvpiOffset = dec 9 2\<rparr>)]"

definition vehicleMultipliers :: "(string \<times> multipliers) list" where
  "vehicleMultipliers =
     [(''iv1'',
       \<lparr>valueMultiplier = dec 106 2, calledMultiplier = dec 96 2, tvpiOffset = dec 8 2\<rparr>),
      (''iv2'',
       \<lparr>valueMultiplier = dec 95 2, calledMultiplier = dec 104 2, tvpiOffset = dec (- 7) 2\<rparr>)]"

definition identity_multipliers :: multipliers where
  "identity_multipliers =
     \<lparr>valueMultiplier = dec 1 0, calledMultiplier = dec 1 0, tvpiOffset = dec 0 0\<rparr>"

definition select_multipliers :: "string \<Rightarrow> string \<Rightarrow> multipliers objref" where
  "select_multipliers vId fId =
     (if fId \<noteq> ''all'' then or_else (js_get fundMultipliers fId) identity_multipliers
      else if vId \<noteq> ''all'' then or_else (js_get vehicleMultipliers vId) identity_multipliers
      else Obj identity_multipliers)"

text \<open>The body of the final \<open>map\<close> callback: one adjusted data point.\<close>

definition adjust_point :: "multipliers objref \<Rightarrow> perf_point \<Rightarrow> perf_point" where
  "adjust_point ms dataPoint =
     \<lparr>date = date dataPoint,
      totalValue =
        js_div (Math_round (js_mul (js_mul (totalValue dataPoint) (get_prop valueMultiplier ms))
                              (dec 100 0))) (dec 100 0),
      capitalCalled =
        js_div (Math_round (js_mul (js_mul (capitalCalled dataPoint) (get_prop calledMultiplier ms))
                              (dec 100 0))) (dec 100 0),
      tvpi =
        js_div (Math_round (js_mul (js_add (tvpi dataPoint) (get_prop tvpiOffset ms))
                              (dec 100 0))) (dec 100 0)\<rparr>"

definition getPerformanceData :: "clock \<Rightarrow> string \<Rightarrow> string \<Rightarrow> perf_point list" where
  "getPerformanceData c vId fId =
     (let months = months_from c 11
      in map (adjust_point (select_multipliers vId fId)) (fullPerformance months))"

section \<open>lpFilterBar\<close>

record filter_state =
  selectedVehicleId :: string
  selectedFundId :: string

definition initial_state :: filter_state where
  "initial_state = \<lparr>selectedVehicleId = ''all'', selectedFundId = ''all''\<rparr>"

text \<open>The values of the fund dropdown: \<open>all\<close>, then the funds of the selected vehicle.\<close>

definition fundOptions :: "filter_state \<Rightarrow> string list" where
  "fundOptions s =
     (let funds = getFunds;
          filteredFunds =
            (if selectedVehicleId s \<noteq> ''all''
             then filter (\<lambda>fund. vehicleId fund = selectedVehicleId s) funds else funds)
      in ''all'' # map fund_id filteredFunds)"

definition handleVehicleChange :: "string \<Rightarrow> filter_state \<Rightarrow> filter_state" where
  "handleVehicleChange newVehicleId s =
     (if newVehicleId \<noteq> selectedVehicleId s then
        (let s1 = s\<lparr>selectedVehicleId := newVehicleId\<rparr>
         in if selectedFundId s1 \<noteq> ''all'' then
              (case find (\<lambda>f. fund_id f = selectedFundId s1) getFunds of
                 Some currentFund \<Rightarrow>
                   (if vehicleId currentFund \<noteq> newVehicleId \<and> newVehicleId \<noteq> ''all''
                    then s1\<lparr>selectedFundId := ''all''\<rparr> else s1)
               | None \<Rightarrow> s1)
            else s1)
      else s)"

definition handleFundChange :: "string \<Rightarrow> filter_state \<Rightarrow> filter_state" where
  "handleFundChange newFundId s =
     (if newFundId \<noteq> selectedFundId s then
        (let s1 = s\<lparr>selectedFundId := newFundId\<rparr>
         in if newFundId \<noteq> ''all'' \<and> selectedVehicleId s1 = ''all'' then
              (case find (\<lambda>f. fund_id f = newFundId) getFunds of
                 Some selectedFund \<Rightarrow> s1\<lparr>selectedVehicleId := vehicleId selectedFund\<rparr>
               | None \<Rightarrow> s1)
            else s1)
      else s)"

definition handleClearFilters :: "filter_state \<Rightarrow> filter_state" where
  "handleClearFilters s = s\<lparr>selectedVehicleId := ''all'', selectedFundId := ''all''\<rparr>"

datatype filter_op = VehicleChange string | FundChange string | ClearFilters

fun step :: "filter_op \<Rightarrow> filter_state \<Rightarrow> filter_state" where
  "step (VehicleChange v) s = handleVehicleChange v s"
| "step (FundChange f) s = handleFundChange f s"
| "step ClearFilters s = handleClearFilters s"

fun run :: "filter_op list \<Rightarrow> filter_state \<Rightarrow> filter_state" where
  "run [] s = s"
| "run (x # xs) s = run xs (step x s)"

text \<open>
  The invariant of the filter state: a selected fund is a fund of the table, and its
  vehicle is the selected vehicle unless the vehicle filter is \<open>all\<close>.
\<close>

definition filter_inv :: "filter_state \<Rightarrow> bool" where
  "filter_inv s =
     (selectedFundId s = ''all'' \<or>
      (case find (\<lambda>f. fund_id f = selectedFundId s) getFunds of
         Some fund \<Rightarrow> vehicleId fund = selectedVehicleId s \<or> selectedVehicleId s = ''all''
       | None \<Rightarrow> False))"

text \<open>
  An operation the controls can produce: the fund dropdown only offers \<open>fundOptions\<close>.
\<close>

fun offered :: "filter_state \<Rightarrow> filter_op \<Rightarrow> bool" where
  "offered s (FundChange f) = (f \<in> set (fundOptions s))"
| "offered s x = True"

fun all_offered :: "filter_state \<Rightarrow> filter_op list \<Rightarrow> bool" where
  "all_offered s [] = True"
| "all_offered s (x # xs) = (offered s x \<and> all_offered (step x s) xs)"

section \<open>Notions used in the statements\<close>

text \<open>The vehicle that owns a fund, read from the fund table the way the handlers do.\<close>

definition owner :: "string \<Rightarrow> string option" where
  "owner x = map_option vehicleId (find (\<lambda>f. fund_id f = x) getFunds)"

text \<open>
  The performance series as the specification words it: rounding to two decimals,
  the multiplier triple chosen by precedence with the identity for an unknown id, and
  the adjustment of one canonical point.
\<close>

definition round2 :: "jsval \<Rightarrow> jsval" where
  "round2 x = js_div (Math_round (js_mul x (dec 100 0))) (dec 100 0)"

definition spec_multipliers :: "string \<Rightarrow> string \<Rightarrow> multipliers" where
  "spec_multipliers vId fId =
     (if fId \<noteq> ''all'' then
        (case map_of fundMultipliers fId of Some m \<Rightarrow> m | None \<Rightarrow> identity_multipliers)
      else if vId \<noteq> ''all'' then
        (case map_of vehicleMultipliers vId of Some m \<Rightarrow> m | None \<Rightarrow> identity_multipliers)
      else identity_multipliers)"

definition spec_point :: "multipliers \<Rightarrow> perf_point \<Rightarrow> perf_point" where
  "spec_point m base =
     \<lparr>date = date base,
      totalValue = round2 (js_mul (totalValue base) (valueMultiplier m)),
      capitalCalled = round2 (js_mul (capitalCalled base) (calledMultiplier m)),
      tvpi = round2 (js_add (tvpi base) (tvpiOffset m))\<rparr>"

text \<open>
  The twelve months the specification asks for: the current month minus eleven up to
  the current month, each as \<open>YYYY-MM\<close>.
\<close>

definition spec_months :: "clock \<Rightarrow> string list" where
  "spec_months c =
     map (\<lambda>i. let k = fullYear c * 12 + month c - int i
              in digits 4 (k div 12) @ ''-'' @ digits 2 (k mod 12 + 1))
       (rev [0..<12])"

text \<open>
  A metric of a fund and of a vehicle as \<open>getPortfolioMetrics\<close> serves them, the funds
  of a vehicle, and the sum of a metric over them (of the exact values, and with the
  additions of the language in the order of the fund table).
\<close>

definition fund_metric :: "(metrics \<Rightarrow> jsval) \<Rightarrow> string \<Rightarrow> jsval" where
  "fund_metric sel f = get_prop sel (getPortfolioMetrics ''all'' f)"

definition vehicle_metric :: "(metrics \<Rightarrow> jsval) \<Rightarrow> string \<Rightarrow> jsval" where
  "vehicle_metric sel v = get_prop sel (getPortfolioMetrics v ''all'')"

definition vehicle_funds :: "string \<Rightarrow> fund list" where
  "vehicle_funds v = filter (\<lambda>f. vehicleId f = v) getFunds"

definition member_sum :: "(metrics \<Rightarrow> jsval) \<Rightarrow> string \<Rightarrow> rat" where
  "member_sum sel v =
     sum_list (map val (map (\<lambda>f. fund_metric sel (fund_id f)) (vehicle_funds v)))"

definition member_js_sum :: "(metrics \<Rightarrow> jsval) \<Rightarrow> string \<Rightarrow> jsval" where
  "member_js_sum sel v =
     foldl js_add (dec 0 0) (map (\<lambda>f. fund_metric sel (fund_id f)) (vehicle_funds v))"

text \<open>The sum of the global allocations of the funds of a vehicle, as \<open>reduce\<close> adds them.\<close>

definition subset_total :: "string \<Rightarrow> jsval" where
  "subset_total v = foldl (\<lambda>sum f. js_add sum (allocation f)) (dec 0 0) (vehicle_funds v)"

section \<open>Evaluating numbers and tables\<close>

lemmas fl_eval = fl_def fl_scaled_def dec_def Let_def ge_pow2_def nearest_even_def

lemmas js_eval = js_add_def js_mul_def js_div_def to_number_def Math_round_def

lemma val_100: "val (dec 100 0) = 100"
  by (simp add: val_def fl_eval cong: let_weak_cong)

lemma fund_ids:
  "map fund_id getFunds = [''pbventures'', ''norton'', ''wanye'', ''violet'', ''123'', ''mjk'']"
  by (simp add: getFunds_def fundBaseData_def)

lemma vehicle_ids: "map vehicle_id getInvestmentVehicles = [''all'', ''iv1'', ''iv2'']"
  by (simp add: getInvestmentVehicles_def)

lemma owner_table:
  "owner x =
     (if x \<in> {''pbventures'', ''norton'', ''mjk''} then Some ''iv1''
      else if x \<in> {''wanye'', ''violet'', ''123''} then Some ''iv2'' else None)"
  by (simp add: owner_def getFunds_def fundBaseData_def)

section \<open>Portfolio metrics\<close>

text \<open>
  For ids that do not name a member of \<open>Object.prototype\<close>, the fund filter comes first,
  then the vehicle filter, and an id outside the table gives the full-portfolio fixture.
\<close>

lemma getPortfolioMetrics_precedence:
  assumes "fId \<notin> set object_prototype_keys" and "vId \<notin> set object_prototype_keys"
  shows "getPortfolioMetrics vId fId =
     Obj (if fId \<noteq> ''all'' then
            (case map_of fundMetrics fId of Some m \<Rightarrow> m | None \<Rightarrow> fullMetrics)
          else if vId \<noteq> ''all'' then
            (case map_of vehicleMetrics vId of Some m \<Rightarrow> m | None \<Rightarrow> fullMetrics)
          else fullMetrics)"
  using assms
  by (simp add: getPortfolioMetrics_def or_else_def js_get_def split: option.splits)

text \<open>
  C1. The claim is that every fund id outside the fund table, and failing that every
  vehicle id outside the vehicle table, gives the full-portfolio fixture. The id
  \<open>constructor\<close> is in neither table, yet \<open>fundMetrics[fundId] || fullMetrics\<close> finds the
  member of that name which every object literal inherits: the function returns that
  member, not the fixture, and its \<open>totalCommitments\<close> is \<open>undefined\<close>.
\<close>

theorem getPortfolioMetrics_inherited_key:
  "getPortfolioMetrics ''all'' ''constructor'' = ProtoMember ''constructor'' \<and>
   getPortfolioMetrics ''constructor'' ''all'' = ProtoMember ''constructor'' \<and>
   ''constructor'' \<notin> set (map fund_id getFunds) \<and>
   ''constructor'' \<notin> set (map vehicle_id getInvestmentVehicles) \<and>
   getPortfolioMetrics ''all'' ''constructor'' \<noteq> Obj fullMetrics \<and>
   get_prop totalCommitments (getPortfolioMetrics ''all'' ''constructor'') = Undefined"
  by (simp add: getPortfolioMetrics_def or_else_def js_get_def fundMetrics_def
      vehicleMetrics_def object_prototype_keys_def get_prop_def fund_ids vehicle_ids)

text \<open>
  C8. With both filters at \<open>all\<close>, \<open>getPortfolioMetrics\<close> returns the record
  \<open>{totalCommitments: 618886450.23, totalCalled: 130575585.29,
  totalDistributions: 12756900.14, estimatedValue: 160335942.14, estimatedTVPI: 1.33}\<close>.
\<close>

theorem getMetrics_all_all:
  "getPortfolioMetrics ''all'' ''all'' =
     Obj \<lparr>totalCommitments = dec 61888645023 2, totalCalled = dec 13057558529 2,
          totalDistributions = dec 1275690014 2, estimatedValue = dec 16033594214 2,
          estimatedTVPI = dec 133 2\<rparr>"
  by (simp add: getPortfolioMetrics_def fullMetrics_def)

section \<open>Allocation of a single fund\<close>

text \<open>
  C10. For every fund id \<open>f\<close> of the fund table and every vehicle id \<open>v\<close> whatsoever,
  \<open>getFundAllocation v f\<close> is the one-element sequence for \<open>f\<close>, with allocation exactly
  100 and with the \<open>totalCommitments\<close> of the fund-level metrics of \<open>f\<close> as its value.
\<close>

theorem single_fund_allocation:
  assumes "f \<in> set (map fund_id getFunds)"
  shows "\<exists>n c m. getFundAllocation v f =
             [\<lparr>fundId = f, fundName = n, allocation' = dec 100 0,
               value' = totalCommitments m, color' = c\<rparr>]
           \<and> map_of fundMetrics f = Some m \<and> val (dec 100 0) = 100"
proof -
  from assms have "f \<in> {''pbventures'', ''norton'', ''wanye'', ''violet'', ''123'', ''mjk''}"
    by (simp add: fund_ids)
  then show ?thesis
    by (auto simp add: getFundAllocation_def Let_def getFunds_def fundBaseData_def
        getPortfolioMetrics_def or_else_def js_get_def fundMetrics_def get_prop_def val_100)
qed

theorem single_fund_allocation_witness:
  "''mjk'' \<in> set (map fund_id getFunds) \<and>
   (\<exists>n c m. getFundAllocation ''iv2'' ''mjk'' =
             [\<lparr>fundId = ''mjk'', fundName = n, allocation' = dec 100 0,
               value' = totalCommitments m, color' = c\<rparr>]
           \<and> map_of fundMetrics ''mjk'' = Some m \<and> val (dec 100 0) = 100)"
proof -
  have h: "''mjk'' \<in> set (map fund_id getFunds)"
    by (simp add: fund_ids)
  show ?thesis
    using h single_fund_allocation [OF h, of "''iv2''"] by blast
qed

section \<open>Filter bar\<close>

lemma fundOptions_iff:
  "f \<in> set (fundOptions s) \<longleftrightarrow>
     f = ''all'' \<or>
     (\<exists>w. owner f = Some w \<and> (selectedVehicleId s = ''all'' \<or> w = selectedVehicleId s))"
  by (auto simp add: fundOptions_def owner_def getFunds_def fundBaseData_def Let_def)

lemma filter_inv_owner:
  "filter_inv s \<longleftrightarrow>
     selectedFundId s = ''all'' \<or>
     (\<exists>w. owner (selectedFundId s) = Some w \<and>
          (w = selectedVehicleId s \<or> selectedVehicleId s = ''all''))"
  by (auto simp add: filter_inv_def owner_def split: option.splits)

lemma handleVehicleChange_owner:
  "handleVehicleChange v s =
     (if v = selectedVehicleId s then s
      else if selectedFundId s \<noteq> ''all'' \<and> v \<noteq> ''all'' \<and>
              (\<exists>w. owner (selectedFundId s) = Some w \<and> w \<noteq> v)
      then \<lparr>selectedVehicleId = v, selectedFundId = ''all''\<rparr>
      else \<lparr>selectedVehicleId = v, selectedFundId = selectedFundId s\<rparr>)"
  by (auto simp add: handleVehicleChange_def owner_def Let_def split: option.splits)

lemma handleFundChange_owner:
  "handleFundChange f s =
     (if f = selectedFundId s then s
      else if f \<noteq> ''all'' \<and> selectedVehicleId s = ''all''
      then (case owner f of
              Some w \<Rightarrow> \<lparr>selectedVehicleId = w, selectedFundId = f\<rparr>
            | None \<Rightarrow> \<lparr>selectedVehicleId = ''all'', selectedFundId = f\<rparr>)
      else \<lparr>selectedVehicleId = selectedVehicleId s, selectedFundId = f\<rparr>)"
  by (auto simp add: handleFundChange_def owner_def Let_def split: option.splits)

lemma step_inv:
  assumes "filter_inv s" and "offered s x"
  shows "filter_inv (step x s)"
proof (cases x)
  case (VehicleChange v)
  with assms(1) show ?thesis
    by (auto simp add: filter_inv_owner handleVehicleChange_owner)
next
  case (FundChange f)
  with assms show ?thesis
    by (auto simp add: filter_inv_owner handleFundChange_owner fundOptions_iff)
next
  case ClearFilters
  then show ?thesis
    by (simp add: filter_inv_def handleClearFilters_def)
qed

lemma run_inv: "filter_inv s \<Longrightarrow> all_offered s xs \<Longrightarrow> filter_inv (run xs s)"
  by (induction xs arbitrary: s) (simp_all add: step_inv)

text \<open>
  C6, as stated: every sequence of vehicle changes, fund changes and clears keeps the
  invariant. It does not: with the vehicle filter at \<open>iv2\<close>, a fund change to
  \<open>pbventures\<close> (a fund of \<open>iv1\<close>) is stored as it is, since \<open>handleFundChange\<close> touches
  the vehicle filter only when that filter is \<open>all\<close>.
\<close>

theorem filter_inv_counterexample:
  "\<not> filter_inv (run [VehicleChange ''iv2'', FundChange ''pbventures''] initial_state)"
  by (simp add: initial_state_def filter_inv_owner handleVehicleChange_owner
      handleFundChange_owner owner_table)

text \<open>
  C6, amended: the invariant holds after every sequence of operations in which each
  fund change picks a value that the fund dropdown offers at that moment (\<open>all\<close>, or a
  fund of the selected vehicle, or any fund while the vehicle filter is \<open>all\<close>);
  vehicle changes are unrestricted. A fund change to a fund \<open>f\<close> of the table while the
  vehicle filter is \<open>all\<close> adopts the vehicle of \<open>f\<close>.
\<close>

theorem filter_inv_offered:
  assumes "all_offered initial_state xs" and "s = run xs initial_state"
  shows "filter_inv s \<and>
         (selectedVehicleId s = ''all'' \<and> f \<noteq> selectedFundId s \<and> owner f = Some w \<longrightarrow>
            handleFundChange f s = \<lparr>selectedVehicleId = w, selectedFundId = f\<rparr>)"
proof
  have "filter_inv initial_state"
    by (simp add: filter_inv_def initial_state_def)
  with assms show "filter_inv s"
    by (simp add: run_inv)
next
  show "selectedVehicleId s = ''all'' \<and> f \<noteq> selectedFundId s \<and> owner f = Some w \<longrightarrow>
          handleFundChange f s = \<lparr>selectedVehicleId = w, selectedFundId = f\<rparr>"
    by (auto simp add: handleFundChange_owner owner_table)
qed

theorem filter_inv_offered_witness:
  "all_offered initial_state [FundChange ''pbventures'', VehicleChange ''all''] \<and>
   run [FundChange ''pbventures'', VehicleChange ''all''] initial_state =
     \<lparr>selectedVehicleId = ''all'', selectedFundId = ''pbventures''\<rparr> \<and>
   filter_inv \<lparr>selectedVehicleId = ''all'', selectedFundId = ''pbventures''\<rparr> \<and>
   owner ''wanye'' = Some ''iv2'' \<and>
   handleFundChange ''wanye'' \<lparr>selectedVehicleId = ''all'', selectedFundId = ''pbventures''\<rparr> =
     \<lparr>selectedVehicleId = ''iv2'', selectedFundId = ''wanye''\<rparr>"
proof -
  have a: "all_offered initial_state [FundChange ''pbventures'', VehicleChange ''all'']"
    by (simp add: initial_state_def fundOptions_iff handleFundChange_owner owner_table)
  have r: "\<lparr>selectedVehicleId = ''all'', selectedFundId = ''pbventures''\<rparr> =
           run [FundChange ''pbventures'', VehicleChange ''all''] initial_state"
    by (simp add: initial_state_def handleFundChange_owner handleVehicleChange_owner owner_table)
  have o: "owner ''wanye'' = Some ''iv2''"
    by (simp add: owner_table)
  have "\<lparr>selectedVehicleId = ''all'', selectedFundId = ''pbventures''\<rparr> \<noteq>
        \<lparr>selectedVehicleId = ''all'', selectedFundId = ''wanye''\<rparr>"
    by simp
  with o filter_inv_offered [OF a r, of "''wanye''" "''iv2''"]
  have "filter_inv \<lparr>selectedVehicleId = ''all'', selectedFundId = ''pbventures''\<rparr> \<and>
        handleFundChange ''wanye'' \<lparr>selectedVehicleId = ''all'', selectedFundId = ''pbventures''\<rparr> =
          \<lparr>selectedVehicleId = ''iv2'', selectedFundId = ''wanye''\<rparr>"
    by simp
  with a r [symmetric] o show ?thesis
    by simp
qed

section \<open>Ids outside the tables\<close>

lemma find_unknown_fund:
  "f \<notin> set (map fund_id getFunds) \<Longrightarrow> find (\<lambda>x. fund_id x = f) getFunds = None"
  by (auto simp add: find_None_iff)

lemma filter_unknown_vehicle:
  "v \<notin> set (map vehicle_id getInvestmentVehicles) \<Longrightarrow>
     filter (\<lambda>f. vehicleId f = v) getFunds = []"
  by (auto simp add: vehicle_ids getFunds_def fundBaseData_def)

lemma fund_tables_unknown:
  "f \<notin> set (map fund_id getFunds) \<Longrightarrow>
     map_of fundMetrics f = None \<and> map_of fundMultipliers f = None"
  by (simp add: fund_ids fundMetrics_def fundMultipliers_def)

lemma vehicle_tables_unknown:
  "v \<notin> set (map vehicle_id getInvestmentVehicles) \<Longrightarrow>
     map_of vehicleMetrics v = None \<and> map_of vehicleMultipliers v = None"
  by (simp add: vehicle_ids vehicleMetrics_def vehicleMultipliers_def)

text \<open>
  C2, as stated: for a vehicle id that is neither \<open>all\<close> nor a vehicle of the table,
  \<open>getFundAllocation v all\<close> is the full-portfolio allocation. It is not: the filter on
  \<open>vehicleId\<close> keeps no fund, and the result is the empty sequence, while the
  full-portfolio allocation has six entries.
\<close>

theorem allocation_unknown_vehicle_counterexample:
  "''iv3'' \<noteq> ''all'' \<and> ''iv3'' \<notin> set (map vehicle_id getInvestmentVehicles) \<and>
   getFundAllocation ''iv3'' ''all'' = [] \<and>
   length (getFundAllocation ''all'' ''all'') = 6 \<and>
   getFundAllocation ''iv3'' ''all'' \<noteq> getFundAllocation ''all'' ''all''"
proof -
  have a: "getFundAllocation ''iv3'' ''all'' = []"
    by (simp add: getFundAllocation_def Let_def filter_unknown_vehicle vehicle_ids)
  have b: "length (getFundAllocation ''all'' ''all'') = 6"
    by (simp add: getFundAllocation_def Let_def getFunds_def fundBaseData_def)
  from a b have "getFundAllocation ''iv3'' ''all'' \<noteq> getFundAllocation ''all'' ''all''"
    by auto
  with a b show ?thesis
    by (simp add: vehicle_ids)
qed

text \<open>
  C2, amended. Let \<open>f\<close> be a fund id other than \<open>all\<close> outside the fund table and \<open>v\<close> a
  vehicle id other than \<open>all\<close> outside the vehicle table, neither of them the name of a
  member of \<open>Object.prototype\<close>. Then metrics and performance series degrade to the
  full-portfolio view (for \<open>f\<close> with any vehicle id \<open>w\<close>, and for \<open>v\<close> with fund \<open>all\<close>);
  the allocation for \<open>f\<close> degrades to the allocation of its vehicle argument with fund
  \<open>all\<close> (the full-portfolio allocation when that argument is \<open>all\<close>); and the allocation
  for \<open>v\<close> is the empty sequence, with fund \<open>all\<close> as with \<open>f\<close>. The functions of the
  service have no failing branch: each of these results is a value.
\<close>

theorem unknown_ids_degrade:
  assumes "f \<noteq> ''all''" and "f \<notin> set (map fund_id getFunds)"
    and "f \<notin> set object_prototype_keys"
    and "v \<notin> set (map vehicle_id getInvestmentVehicles)"
    and "v \<notin> set object_prototype_keys"
  shows "getPortfolioMetrics w f = Obj fullMetrics \<and>
         getPortfolioMetrics v ''all'' = Obj fullMetrics \<and>
         getPerformanceData c w f = getPerformanceData c ''all'' ''all'' \<and>
         getPerformanceData c v ''all'' = getPerformanceData c ''all'' ''all'' \<and>
         getFundAllocation w f = getFundAllocation w ''all'' \<and>
         getFundAllocation v ''all'' = [] \<and>
         getFundAllocation v f = []"
proof -
  note ft = fund_tables_unknown [OF assms(2)] and vt = vehicle_tables_unknown [OF assms(4)]
  from assms(4) have va: "v \<noteq> ''all''"
    by (auto simp add: vehicle_ids)
  have m1: "getPortfolioMetrics w f = Obj fullMetrics"
    using assms(1,3) ft by (simp add: getPortfolioMetrics_def or_else_def js_get_def)
  have m2: "getPortfolioMetrics v ''all'' = Obj fullMetrics"
    using assms(5) vt by (simp add: getPortfolioMetrics_def or_else_def js_get_def)
  have s1: "select_multipliers w f = select_multipliers ''all'' ''all''"
    using assms(1,3) ft by (simp add: select_multipliers_def or_else_def js_get_def)
  have s2: "select_multipliers v ''all'' = select_multipliers ''all'' ''all''"
    using assms(5) vt by (simp add: select_multipliers_def or_else_def js_get_def)
  have a1: "getFundAllocation u f = getFundAllocation u ''all''" for u
    using find_unknown_fund [OF assms(2)] by (simp add: getFundAllocation_def)
  have a2: "getFundAllocation v ''all'' = []"
    using va filter_unknown_vehicle [OF assms(4)] by (simp add: getFundAllocation_def Let_def)
  from m1 m2 s1 s2 a1 [of w] a1 [of v] a2 show ?thesis
    by (simp add: getPerformanceData_def)
qed

theorem unknown_ids_degrade_witness:
  "''zeta'' \<noteq> ''all'' \<and> ''zeta'' \<notin> set (map fund_id getFunds) \<and>
   ''zeta'' \<notin> set object_prototype_keys \<and>
   ''iv3'' \<notin> set (map vehicle_id getInvestmentVehicles) \<and>
   ''iv3'' \<notin> set object_prototype_keys \<and>
   getPortfolioMetrics ''iv1'' ''zeta'' = Obj fullMetrics \<and>
   getPortfolioMetrics ''iv3'' ''all'' = Obj fullMetrics \<and>
   getPerformanceData \<lparr>fullYear = 2026, month = 0, tz_offset = 0\<rparr> ''iv1'' ''zeta'' =
     getPerformanceData \<lparr>fullYear = 2026, month = 0, tz_offset = 0\<rparr> ''all'' ''all'' \<and>
   getPerformanceData \<lparr>fullYear = 2026, month = 0, tz_offset = 0\<rparr> ''iv3'' ''all'' =
     getPerformanceData \<lparr>fullYear = 2026, month = 0, tz_offset = 0\<rparr> ''all'' ''all'' \<and>
   getFundAllocation ''iv1'' ''zeta'' = getFundAllocation ''iv1'' ''all'' \<and>
   getFundAllocation ''iv3'' ''all'' = [] \<and>
   getFundAllocation ''iv3'' ''zeta'' = []"
  using unknown_ids_degrade [of "''zeta''" "''iv3''" "''iv1''"
      "\<lparr>fullYear = 2026, month = 0, tz_offset = 0\<rparr>"]
  by (simp add: fund_ids vehicle_ids object_prototype_keys_def)

section \<open>Performance series\<close>

text \<open>
  For ids that do not name a member of \<open>Object.prototype\<close>, the series is the canonical
  series adjusted point by point as the specification words it.
\<close>

lemma adjust_point_Obj: "adjust_point (Obj m) = spec_point m"
  by (rule ext) (simp add: adjust_point_def spec_point_def round2_def get_prop_def)

lemma select_multipliers_spec:
  assumes "fId \<notin> set object_prototype_keys" and "vId \<notin> set object_prototype_keys"
  shows "select_multipliers vId fId = Obj (spec_multipliers vId fId)"
  using assms
  by (simp add: select_multipliers_def spec_multipliers_def or_else_def js_get_def
      split: option.splits)

lemma performance_refines_spec:
  assumes "fId \<notin> set object_prototype_keys" and "vId \<notin> set object_prototype_keys"
  shows "getPerformanceData c vId fId =
           map (spec_point (spec_multipliers vId fId)) (fullPerformance (months_from c 11))"
  by (simp add: getPerformanceData_def select_multipliers_spec [OF assms] adjust_point_Obj)

lemma length_getPerformanceData: "length (getPerformanceData c vId fId) = 12"
  by (simp add: getPerformanceData_def fullPerformance_def Let_def)

lemma adjust_point_ProtoMember:
  "adjust_point (ProtoMember k) p =
     \<lparr>date = date p, totalValue = NaN, capitalCalled = NaN, tvpi = NaN\<rparr>"
  by (cases "totalValue p"; cases "capitalCalled p"; cases "tvpi p")
     (simp_all add: adjust_point_def get_prop_def js_eval dec_def)

lemma first_point_base:
  "fullPerformance ms \<noteq> [] \<and> totalValue (hd (fullPerformance ms)) = dec 145000000 0"
  by (simp add: fullPerformance_def)

lemma identity_totalValue:
  "totalValue p = dec 145000000 0 \<Longrightarrow>
     totalValue (spec_point identity_multipliers p) = Dbl 4865392640000000 (- 25)"
  unfolding spec_point_def identity_multipliers_def round2_def
  by (simp add: js_eval fl_eval cong: let_weak_cong)

lemma first_point_spec:
  "totalValue (hd (map (spec_point identity_multipliers) (fullPerformance ms))) =
     Dbl 4865392640000000 (- 25)"
  using first_point_base [of ms] by (simp add: hd_map identity_totalValue)

text \<open>
  C5. The claim is that an unknown fund id selects the identity triple, so that each
  point is the rounded canonical point. The id \<open>constructor\<close> is not a fund, yet
  \<open>fundMultipliers[fundId] || multipliers\<close> finds the inherited member of that name; its
  \<open>valueMultiplier\<close>, \<open>calledMultiplier\<close> and \<open>tvpiOffset\<close> are \<open>undefined\<close>, and every
  number of the series is \<open>NaN\<close>, at any clock \<open>c\<close>.
\<close>

theorem performance_inherited_key:
  "''constructor'' \<notin> set (map fund_id getFunds) \<and>
   getPerformanceData c ''all'' ''constructor'' =
     map (\<lambda>p. \<lparr>date = date p, totalValue = NaN, capitalCalled = NaN, tvpi = NaN\<rparr>)
       (fullPerformance (months_from c 11)) \<and>
   spec_multipliers ''all'' ''constructor'' = identity_multipliers \<and>
   getPerformanceData c ''all'' ''constructor'' \<noteq>
     map (spec_point (spec_multipliers ''all'' ''constructor''))
       (fullPerformance (months_from c 11))"
proof -
  have s: "select_multipliers ''all'' ''constructor'' = ProtoMember ''constructor''"
    by (simp add: select_multipliers_def or_else_def js_get_def fundMultipliers_def
        object_prototype_keys_def)
  have g: "getPerformanceData c ''all'' ''constructor'' =
     map (\<lambda>p. \<lparr>date = date p, totalValue = NaN, capitalCalled = NaN, tvpi = NaN\<rparr>)
       (fullPerformance (months_from c 11))"
    by (simp add: getPerformanceData_def s adjust_point_ProtoMember)
  have i: "spec_multipliers ''all'' ''constructor'' = identity_multipliers"
    by (simp add: spec_multipliers_def fundMultipliers_def)
  have "totalValue (hd (getPerformanceData c ''all'' ''constructor'')) = NaN"
    unfolding g by (simp add: fullPerformance_def)
  with first_point_spec [of "months_from c 11"]
  have "getPerformanceData c ''all'' ''constructor'' \<noteq>
     map (spec_point identity_multipliers) (fullPerformance (months_from c 11))"
    by auto
  with g i show ?thesis
    by (simp add: fund_ids)
qed

subsection \<open>The months of the series\<close>

lemma digits_numeral [simp]:
  "digits (numeral k) n = digits (pred_numeral k) (n div 10) @ [''0123456789'' ! nat (n mod 10)]"
  by (simp add: numeral_eq_Suc)

lemma months_from_numeral [simp]:
  "months_from c (numeral k) = month_string c (numeral k) # months_from c (pred_numeral k)"
  by (simp add: numeral_eq_Suc)

lemmas date_eval = month_string_def new_Date_def MakeDay_def DayFromYear_def InLeapYear_def
  month_start_def msPerDay_def toISOString_date_def civil_from_days_def Let_def

lemma dates_getPerformanceData: "map date (getPerformanceData c vId fId) = months_from c 11"
  by (simp add: getPerformanceData_def fullPerformance_def Let_def adjust_point_def)

lemma months_utc:
  "months_from \<lparr>fullYear = 2026, month = 0, tz_offset = 0\<rparr> 11 =
     [''2025-02'', ''2025-03'', ''2025-04'', ''2025-05'', ''2025-06'', ''2025-07'',
      ''2025-08'', ''2025-09'', ''2025-10'', ''2025-11'', ''2025-12'', ''2026-01'']"
  by (simp add: date_eval cong: let_weak_cong)

lemma months_west:
  "months_from \<lparr>fullYear = 2026, month = 0, tz_offset = - 300\<rparr> 11 =
     [''2025-02'', ''2025-03'', ''2025-04'', ''2025-05'', ''2025-06'', ''2025-07'',
      ''2025-08'', ''2025-09'', ''2025-10'', ''2025-11'', ''2025-12'', ''2026-01'']"
  by (simp add: date_eval cong: let_weak_cong)

text \<open>
  C4. The claim is that the twelve dates are the months from the current month minus
  eleven up to the current month. In January 2026, in a time zone five and a half hours
  east of UTC, the series runs from \<open>2025-01\<close> to \<open>2025-12\<close>: each date is built as local
  midnight of the first of a month and printed by \<open>toISOString()\<close>, which is in UTC and
  therefore still in the month before. With offset zero or west of UTC the same clock
  gives the months of the claim (\<open>months_utc\<close>, \<open>months_west\<close>).
\<close>

theorem performance_months_east_of_utc:
  "map date (getPerformanceData \<lparr>fullYear = 2026, month = 0, tz_offset = 330\<rparr> vId fId) =
     [''2025-01'', ''2025-02'', ''2025-03'', ''2025-04'', ''2025-05'', ''2025-06'',
      ''2025-07'', ''2025-08'', ''2025-09'', ''2025-10'', ''2025-11'', ''2025-12''] \<and>
   spec_months \<lparr>fullYear = 2026, month = 0, tz_offset = 330\<rparr> =
     [''2025-02'', ''2025-03'', ''2025-04'', ''2025-05'', ''2025-06'', ''2025-07'',
      ''2025-08'', ''2025-09'', ''2025-10'', ''2025-11'', ''2025-12'', ''2026-01''] \<and>
   map date (getPerformanceData \<lparr>fullYear = 2026, month = 0, tz_offset = 330\<rparr> vId fId) \<noteq>
     spec_months \<lparr>fullYear = 2026, month = 0, tz_offset = 330\<rparr>"
proof -
  have a: "months_from \<lparr>fullYear = 2026, month = 0, tz_offset = 330\<rparr> 11 =
     [''2025-01'', ''2025-02'', ''2025-03'', ''2025-04'', ''2025-05'', ''2025-06'',
      ''2025-07'', ''2025-08'', ''2025-09'', ''2025-10'', ''2025-11'', ''2025-12'']"
    by (simp add: date_eval cong: let_weak_cong)
  have b: "spec_months \<lparr>fullYear = 2026, month = 0, tz_offset = 330\<rparr> =
     [''2025-02'', ''2025-03'', ''2025-04'', ''2025-05'', ''2025-06'', ''2025-07'',
      ''2025-08'', ''2025-09'', ''2025-10'', ''2025-11'', ''2025-12'', ''2026-01'']"
    by (simp add: spec_months_def upt_rec Let_def)
  show ?thesis
    unfolding dates_getPerformanceData a b by simp
qed

section \<open>Allocation percentages\<close>

lemma fund_allocation_values:
  "fund_allocation ''pbventures'' = Dbl 8852388017550131 (- 48)"
  "fund_allocation ''norton'' = Dbl 6276891980647629 (- 48)"
  "fund_allocation ''wanye'' = Dbl 5277655813324800 (- 48)"
  "fund_allocation ''violet'' = Dbl 7993889338582630 (- 49)"
  "fund_allocation ''123'' = Dbl 4559894622712627 (- 49)"
  "fund_allocation ''mjk'' = Dbl 5865938514650071 (- 50)"
  by (simp_all add: fund_allocation_def getPortfolioMetrics_def or_else_def js_get_def
      fundMetrics_def fullMetrics_def get_prop_def js_eval fl_eval cong: let_weak_cong)

lemma getFunds_allocations:
  "map allocation getFunds =
     [Dbl 8852388017550131 (- 48), Dbl 6276891980647629 (- 48), Dbl 5277655813324800 (- 48),
      Dbl 7993889338582630 (- 49), Dbl 4559894622712627 (- 49), Dbl 5865938514650071 (- 50)]"
  by (simp add: getFunds_def fundBaseData_def fund_allocation_values)

text \<open>
  C7. \<open>getFunds\<close> returns one allocation per fund, every one a finite number, and they
  sum to 100 within 0.02, added exactly or with the additions of the language.
\<close>

theorem getFunds_allocation_sum:
  "length getFunds = length fundBaseData \<and>
   list_all is_finite (map allocation getFunds) \<and>
   \<bar>sum_list (map val (map allocation getFunds)) - 100\<bar> \<le> 2 / 100 \<and>
   \<bar>val (foldl js_add (dec 0 0) (map allocation getFunds)) - 100\<bar> \<le> 2 / 100"
proof -
  have "length getFunds = length fundBaseData"
    by (simp add: getFunds_def)
  moreover have "list_all is_finite (map allocation getFunds)"
    by (simp add: getFunds_allocations is_finite_def)
  moreover have "\<bar>sum_list (map val (map allocation getFunds)) - 100\<bar> \<le> 2 / 100"
    by (simp add: getFunds_allocations val_def)
  moreover have "foldl js_add (dec 0 0) (map allocation getFunds) = Dbl 7037578105208176 (- 46)"
    by (simp add: getFunds_allocations js_eval fl_eval cong: let_weak_cong)
  then have "\<bar>val (foldl js_add (dec 0 0) (map allocation getFunds)) - 100\<bar> \<le> 2 / 100"
    by (simp add: val_def)
  ultimately show ?thesis by simp
qed

lemma vehicle_funds_ids:
  "map fund_id (vehicle_funds ''iv1'') = [''pbventures'', ''norton'', ''mjk'']"
  "map fund_id (vehicle_funds ''iv2'') = [''wanye'', ''violet'', ''123'']"
  by (simp_all add: vehicle_funds_def getFunds_def fundBaseData_def)

lemma vehicle_funds_allocations:
  "map allocation (vehicle_funds ''iv1'') =
     [Dbl 8852388017550131 (- 48), Dbl 6276891980647629 (- 48), Dbl 5865938514650071 (- 50)]"
  "map allocation (vehicle_funds ''iv2'') =
     [Dbl 5277655813324800 (- 48), Dbl 7993889338582630 (- 49), Dbl 4559894622712627 (- 49)]"
  by (simp_all add: vehicle_funds_def getFunds_def fundBaseData_def fund_allocation_values)

lemma foldl_allocation: "foldl (\<lambda>sum f. js_add sum (allocation f)) z fs = foldl js_add z (map allocation fs)"
  by (induction fs arbitrary: z) simp_all

lemma subset_total_values:
  "subset_total ''iv1'' = Dbl 8297882313430139 (- 47)"
  "subset_total ''iv2'' = Dbl 5777273896986215 (- 47)"
  unfolding subset_total_def foldl_allocation vehicle_funds_allocations
  by (simp_all add: js_eval fl_eval cong: let_weak_cong)

lemma getFundAllocation_vehicle:
  assumes "v \<noteq> ''all''"
  shows "map fundId (getFundAllocation v ''all'') = map fund_id (vehicle_funds v)"
    and "map allocation' (getFundAllocation v ''all'') =
           map (\<lambda>a. js_mul (js_div a (subset_total v)) (dec 100 0))
             (map allocation (vehicle_funds v))"
  using assms
  by (simp_all add: getFundAllocation_def Let_def vehicle_funds_def subset_total_def comp_def)

lemma renormalized_values:
  "map allocation' (getFundAllocation ''iv1'' ''all'') =
     [Dbl 7507113312033694 (- 47), Dbl 5323008803127230 (- 47), Dbl 4974506881487509 (- 49)]"
  "map allocation' (getFundAllocation ''iv2'' ''all'') =
     [Dbl 6428326203806090 (- 47), Dbl 4868385711682478 (- 47), Dbl 5554073840088461 (- 48)]"
proof -
  have a: "''iv1'' \<noteq> ''all''" "''iv2'' \<noteq> ''all''"
    by simp_all
  show "map allocation' (getFundAllocation ''iv1'' ''all'') =
     [Dbl 7507113312033694 (- 47), Dbl 5323008803127230 (- 47), Dbl 4974506881487509 (- 49)]"
    unfolding getFundAllocation_vehicle(2) [OF a(1)] vehicle_funds_allocations subset_total_values
    by (simp add: js_eval fl_eval cong: let_weak_cong)
  show "map allocation' (getFundAllocation ''iv2'' ''all'') =
     [Dbl 6428326203806090 (- 47), Dbl 4868385711682478 (- 47), Dbl 5554073840088461 (- 48)]"
    unfolding getFundAllocation_vehicle(2) [OF a(2)] vehicle_funds_allocations subset_total_values
    by (simp add: js_eval fl_eval cong: let_weak_cong)
qed

text \<open>
  C3. For a vehicle \<open>v\<close> of the vehicle table other than \<open>all\<close>, \<open>getFundAllocation v all\<close>
  lists the funds whose \<open>vehicleId\<close> is \<open>v\<close>, in the order of the fund table; the
  percentage of each is its global allocation divided by the sum of the global
  allocations of those funds, times 100; and the percentages sum to 100 within 0.02.
\<close>

theorem vehicle_allocation_renormalized:
  assumes "v \<in> set (map vehicle_id getInvestmentVehicles)" and "v \<noteq> ''all''"
  shows "map fundId (getFundAllocation v ''all'') = map fund_id (vehicle_funds v) \<and>
         map allocation' (getFundAllocation v ''all'') =
           map (\<lambda>a. js_mul (js_div a (subset_total v)) (dec 100 0))
             (map allocation (vehicle_funds v)) \<and>
         list_all is_finite (map allocation' (getFundAllocation v ''all'')) \<and>
         \<bar>sum_list (map val (map allocation' (getFundAllocation v ''all''))) - 100\<bar> \<le> 2 / 100"
proof -
  from assms have "v = ''iv1'' \<or> v = ''iv2''"
    by (auto simp add: vehicle_ids)
  then have "list_all is_finite (map allocation' (getFundAllocation v ''all'')) \<and>
      \<bar>sum_list (map val (map allocation' (getFundAllocation v ''all''))) - 100\<bar> \<le> 2 / 100"
  proof
    assume "v = ''iv1''"
    then show ?thesis
      unfolding \<open>v = ''iv1''\<close> renormalized_values by (simp add: is_finite_def val_def)
  next
    assume "v = ''iv2''"
    then show ?thesis
      unfolding \<open>v = ''iv2''\<close> renormalized_values by (simp add: is_finite_def val_def)
  qed
  with getFundAllocation_vehicle [OF assms(2)] show ?thesis
    by simp
qed

theorem vehicle_allocation_renormalized_witness:
  "''iv1'' \<in> set (map vehicle_id getInvestmentVehicles) \<and> ''iv1'' \<noteq> ''all'' \<and>
   map fundId (getFundAllocation ''iv1'' ''all'') = [''pbventures'', ''norton'', ''mjk''] \<and>
   list_all is_finite (map allocation' (getFundAllocation ''iv1'' ''all'')) \<and>
   \<bar>sum_list (map val (map allocation' (getFundAllocation ''iv1'' ''all''))) - 100\<bar> \<le> 2 / 100"
proof -
  have h: "''iv1'' \<in> set (map vehicle_id getInvestmentVehicles)" "''iv1'' \<noteq> ''all''"
    by (simp_all add: vehicle_ids)
  note t = vehicle_allocation_renormalized [OF h]
  from t have "map fundId (getFundAllocation ''iv1'' ''all'') = map fund_id (vehicle_funds ''iv1'')"
    by (rule conjunct1)
  then have a: "map fundId (getFundAllocation ''iv1'' ''all'') = [''pbventures'', ''norton'', ''mjk'']"
    by (simp only: vehicle_funds_ids(1))
  from t have b: "list_all is_finite (map allocation' (getFundAllocation ''iv1'' ''all'')) \<and>
      \<bar>sum_list (map val (map allocation' (getFundAllocation ''iv1'' ''all''))) - 100\<bar> \<le> 2 / 100"
    by blast
  from h a b show ?thesis
    by blast
qed

section \<open>Vehicle totals and fund totals\<close>

lemma totalCalled_values:
  "vehicle_metric totalCalled ''iv1'' = Dbl 5168879628776899 (- 26)"
  "map (\<lambda>f. fund_metric totalCalled (fund_id f)) (vehicle_funds ''iv1'') =
     [Dbl 5511777309939466 (- 27), Dbl 7816410047835013 (- 28), Dbl 7290675782022595 (- 30)]"
  by (simp_all add: vehicle_metric_def fund_metric_def vehicle_funds_def getFunds_def
      fundBaseData_def getPortfolioMetrics_def or_else_def js_get_def fundMetrics_def
      vehicleMetrics_def get_prop_def fl_eval cong: let_weak_cong)

text \<open>
  C9. The funds of vehicle \<open>iv1\<close> are \<open>pbventures\<close>, \<open>norton\<close> and \<open>mjk\<close>. The
  \<open>totalCalled\<close> stored for \<open>iv1\<close> is not the sum of the \<open>totalCalled\<close> of these funds: it
  exceeds the sum by 48000, up to the rounding of the literals, whether the sum is
  taken exactly or with the additions of the language.
\<close>

theorem iv1_totalCalled_inconsistent:
  "map fund_id (vehicle_funds ''iv1'') = [''pbventures'', ''norton'', ''mjk''] \<and>
   val (vehicle_metric totalCalled ''iv1'') \<noteq> member_sum totalCalled ''iv1'' \<and>
   \<bar>val (vehicle_metric totalCalled ''iv1'') - member_sum totalCalled ''iv1'' - 48000\<bar> < 1 / 1000 \<and>
   is_finite (member_js_sum totalCalled ''iv1'') \<and>
   val (vehicle_metric totalCalled ''iv1'') \<noteq> val (member_js_sum totalCalled ''iv1'')"
proof -
  have s: "member_sum totalCalled ''iv1'' = 82650534452878375 / 1073741824"
    unfolding member_sum_def totalCalled_values by (simp add: val_def)
  have j: "member_js_sum totalCalled ''iv1'' = Dbl 5165658403304898 (- 26)"
    unfolding member_js_sum_def totalCalled_values
    by (simp add: js_eval fl_eval cong: let_weak_cong)
  show ?thesis
    by (simp add: vehicle_funds_ids s j totalCalled_values(1) val_def is_finite_def)
qed

end
